theory Spec2Isabelle
  imports Main "HOL-Library.Multiset"
begin

section \<open>Python values used by the engine\<close>

text \<open>
  The engine is the Python of \<^verbatim>\<open>src/game.py\<close> and its English copy
  \<^verbatim>\<open>src/game_en.py\<close>. Python integers are unbounded and are modelled by \<open>int\<close>;
  list indices that the code only ever produces as non-negative (\<open>player_idx\<close>,
  \<open>turn_count\<close>) are \<open>nat\<close>. A Python \<open>str\<close> is modelled by \<open>string\<close>, the
  bytes of its UTF-8 encoding: substring containment on the bytes agrees with containment
  on code points, because UTF-8 is self-synchronising. Every exception the modelled code
  can raise is a value of \<open>error\<close>.
\<close>

datatype error =
    ValueError
  | TypeError
  | ZeroDivisionError
  | IndexError
  | AttributeError
  | ApiError

text \<open>\<open>str(n)\<close> of an integer: decimal digits, a leading minus sign when negative.\<close>

definition digit_char :: "nat \<Rightarrow> char" where
  "digit_char d = ''0123456789'' ! (d mod 10)"

function str_nat :: "nat \<Rightarrow> string" where
  "str_nat n = (if n < 10 then [digit_char n] else str_nat (n div 10) @ [digit_char n])"
  by pat_completeness auto
termination
  by (relation "measure id") auto

declare str_nat.simps [simp del]

definition str_int :: "int \<Rightarrow> string" where
  "str_int i = (if i < 0 then CHR ''-'' # str_nat (nat (- i)) else str_nat (nat i))"

text \<open>\<open>sep.join(xs)\<close> and the \<open>repr\<close> of a list of integers, \<open>[1, 3]\<close>.\<close>

fun join :: "string \<Rightarrow> string list \<Rightarrow> string" where
  "join sep [] = []"
| "join sep [x] = x"
| "join sep (x # y # ys) = x @ sep @ join sep (y # ys)"

definition repr_int_list :: "int list \<Rightarrow> string" where
  "repr_int_list xs = ''['' @ join '', '' (map str_int xs) @ '']''"

text \<open>\<open>s.startswith(pre)\<close>, \<open>sub in s\<close> and \<open>s.lower()\<close> (ASCII letters; the other bytes of a
  UTF-8 string are left as they are, so a cased letter outside ASCII is not lowered).\<close>

fun startswith :: "string \<Rightarrow> string \<Rightarrow> bool" where
  "startswith s [] = True"
| "startswith [] (p # ps) = False"
| "startswith (c # cs) (p # ps) = (c = p \<and> startswith cs ps)"

fun contains :: "string \<Rightarrow> string \<Rightarrow> bool" where
  "contains sub [] = (sub = [])"
| "contains sub (c # cs) = (startswith (c # cs) sub \<or> contains sub cs)"

definition lower_char :: "char \<Rightarrow> char" where
  "lower_char c =
     (case map_of (zip ''ABCDEFGHIJKLMNOPQRSTUVWXYZ'' ''abcdefghijklmnopqrstuvwxyz'') c of
        Some d \<Rightarrow> d
      | None \<Rightarrow> c)"

definition lower :: "string \<Rightarrow> string" where
  "lower s = map lower_char s"

text \<open>
  \<open>int(param)\<close> for the argument the engine passes: \<open>None\<close> raises \<open>TypeError\<close>; a string is
  stripped of surrounding white space and must then be an optional sign followed by decimal
  digits, single underscores allowed between digits; anything else raises \<open>ValueError\<close>.
  Decimal digits outside ASCII, which Python accepts as well, are not recognised here; the
  engine's results below depend only on whether a number is returned and which.
\<close>

definition is_space :: "char \<Rightarrow> bool" where
  "is_space c = (c \<in> set [CHR 0x20, CHR 0x09, CHR 0x0A, CHR 0x0B, CHR 0x0C, CHR 0x0D,
                           CHR 0x1C, CHR 0x1D, CHR 0x1E, CHR 0x1F])"

definition strip :: "string \<Rightarrow> string" where
  "strip s = rev (dropWhile is_space (rev (dropWhile is_space s)))"

definition digit_val :: "char \<Rightarrow> int option" where
  "digit_val c = map_of (zip ''0123456789'' [0, 1, 2, 3, 4, 5, 6, 7, 8, 9]) c"

fun digits_val :: "int \<Rightarrow> string \<Rightarrow> int option" where
  "digits_val acc [] = Some acc"
| "digits_val acc (c # cs) =
     (if c = CHR ''_'' then
        (case cs of
           [] \<Rightarrow> None
         | d # ds \<Rightarrow> if digit_val d = None then None else digits_val acc cs)
      else
        (case digit_val c of
           None \<Rightarrow> None
         | Some v \<Rightarrow> digits_val (10 * acc + v) cs))"

definition unsigned_val :: "string \<Rightarrow> int option" where
  "unsigned_val s =
     (case s of
        [] \<Rightarrow> None
      | c # cs \<Rightarrow> if digit_val c = None then None else digits_val 0 s)"

definition py_int :: "string option \<Rightarrow> error + int" where
  "py_int param =
     (case param of
        None \<Rightarrow> Inl TypeError
      | Some s \<Rightarrow>
          (case strip s of
             [] \<Rightarrow> Inl ValueError
           | c # cs \<Rightarrow>
               (if c = CHR ''-'' then
                  (case unsigned_val cs of None \<Rightarrow> Inl ValueError | Some v \<Rightarrow> Inr (- v))
                else if c = CHR ''+'' then
                  (case unsigned_val cs of None \<Rightarrow> Inl ValueError | Some v \<Rightarrow> Inr v)
                else
                  (case unsigned_val (c # cs) of None \<Rightarrow> Inl ValueError | Some v \<Rightarrow> Inr v))))"

text \<open>
  The random module. Each draw is an explicit argument, a raw natural number that the
  model reduces into the range the call asks for, so every outcome the library can produce
  is the value at some draw. \<open>random.randint(a, b)\<close> raises \<open>ValueError\<close> on an empty
  range; \<open>random.choice(xs)\<close> is only called on a non-empty list; \<open>random.shuffle\<close> is the
  library's sweep from the last index down to 1, swapping index \<open>i\<close> with a drawn index
  \<open>j \<le> i\<close>.
\<close>

definition randint :: "int \<Rightarrow> int \<Rightarrow> nat \<Rightarrow> error + int" where
  "randint a b r = (if b < a then Inl ValueError else Inr (a + int r mod (b - a + 1)))"

definition choice :: "'a list \<Rightarrow> nat \<Rightarrow> 'a" where
  "choice xs r = xs ! (r mod length xs)"

definition swap :: "nat \<Rightarrow> nat \<Rightarrow> 'a list \<Rightarrow> 'a list" where
  "swap i j xs = xs[i := xs ! j, j := xs ! i]"

primrec shuffle_from :: "(nat \<Rightarrow> nat) \<Rightarrow> nat \<Rightarrow> 'a list \<Rightarrow> 'a list" where
  "shuffle_from rs 0 xs = xs"
| "shuffle_from rs (Suc i) xs = shuffle_from rs i (swap (Suc i) (rs (Suc i) mod (Suc i + 1)) xs)"

definition shuffle :: "(nat \<Rightarrow> nat) \<Rightarrow> 'a list \<Rightarrow> 'a list" where
  "shuffle rs xs = shuffle_from rs (length xs - 1) xs"

text \<open>\<open>list(range(n))\<close>: empty when \<open>n \<le> 0\<close>.\<close>

definition range_list :: "int \<Rightarrow> int list" where
  "range_list n = map int [0..<nat n]"

section \<open>The two locale variants\<close>

text \<open>
  \<^verbatim>\<open>game.py\<close> (variant \<open>ZH\<close>) and \<^verbatim>\<open>game_en.py\<close> (variant \<open>EN\<close>) differ in their
  string literals and in one number: the divisor of the bullet count drawn by
  \<open>initialize_gun\<close> (\<open>chamber_count // 2\<close> against \<open>chamber_count // 3\<close>). The literals are
  kept in a table indexed by \<open>phrase\<close>; the \<open>ZH\<close> entries are the UTF-8 bytes of the Chinese
  literals of \<^verbatim>\<open>game.py\<close>, in the order in which the literals occur in the file.
\<close>

datatype lang = ZH | EN

datatype phrase =
    T_Init
  | T_InitLoadedAt
  | T_InitTrigger
  | T_InitLoaded
  | T_BulletAddedAt
  | T_BulletAdded
  | T_ChambersFull
  | T_ChecksPosition
  | T_HasBullet
  | T_EmptyChamber
  | T_TriggerMoved
  | T_ContractActivated
  | T_ReverseActivated
  | T_FiredAt
  | T_FireResult
  | T_Hit
  | T_Miss
  | T_ContractEnded
  | T_InvalidItem
  | T_ItemBullet
  | T_ItemCheck
  | T_ItemReverse
  | T_ItemContract
  | T_ItemPush
  | T_InvalidPosition
  | T_PositionIs
  | T_PositionMid
  | T_PositionHas
  | T_PositionEmpty
  | T_PositionEnd
  | T_NeedPosition
  | T_Used
  | T_UsedSep
  | T_Proposes
  | T_Responds
  | T_Agree
  | T_Says
  | T_StaysSilent
  | T_Self
  | T_Opponent
  | T_Negotiate
  | T_Talk

primrec zh :: "phrase \<Rightarrow> string" where
  "zh T_Init =
     [CHR 0xE6, CHR 0xB8, CHR 0xB8, CHR 0xE6, CHR 0x88, CHR 0x8F, CHR 0xE5, CHR 0x88,
      CHR 0x9D, CHR 0xE5, CHR 0xA7, CHR 0x8B, CHR 0xE5, CHR 0x8C, CHR 0x96, CHR 0x3A,
      CHR 0x20]"
| "zh T_InitLoadedAt =
     [CHR 0xE4, CHR 0xB8, CHR 0xAA, CHR 0xE5, CHR 0xAD, CHR 0x90, CHR 0xE5, CHR 0xBC,
      CHR 0xB9, CHR 0xE8, CHR 0xA2, CHR 0xAB, CHR 0xE9, CHR 0x9A, CHR 0x8F, CHR 0xE6,
      CHR 0x9C, CHR 0xBA, CHR 0xE8, CHR 0xA3, CHR 0x85, CHR 0xE5, CHR 0x85, CHR 0xA5,
      CHR 0xE4, CHR 0xBD, CHR 0x8D, CHR 0xE7, CHR 0xBD, CHR 0xAE, CHR 0x20]"
| "zh T_InitTrigger =
     [CHR 0xEF, CHR 0xBC, CHR 0x8C, CHR 0xE5, CHR 0x88, CHR 0x9D, CHR 0xE5, CHR 0xA7,
      CHR 0x8B, CHR 0xE6, CHR 0x89, CHR 0xB3, CHR 0xE6, CHR 0x9C, CHR 0xBA, CHR 0xE4,
      CHR 0xBD, CHR 0x8D, CHR 0xE7, CHR 0xBD, CHR 0xAE, CHR 0xE4, CHR 0xB8, CHR 0xBA]"
| "zh T_InitLoaded =
     [CHR 0xE4, CHR 0xB8, CHR 0xAA, CHR 0xE5, CHR 0xAD, CHR 0x90, CHR 0xE5, CHR 0xBC,
      CHR 0xB9, CHR 0xE8, CHR 0xA2, CHR 0xAB, CHR 0xE9, CHR 0x9A, CHR 0x8F, CHR 0xE6,
      CHR 0x9C, CHR 0xBA, CHR 0xE8, CHR 0xA3, CHR 0x85, CHR 0xE5, CHR 0x85, CHR 0xA5,
      CHR 0xEF, CHR 0xBC, CHR 0x8C, CHR 0xE5, CHR 0x88, CHR 0x9D, CHR 0xE5, CHR 0xA7,
      CHR 0x8B, CHR 0xE6, CHR 0x89, CHR 0xB3, CHR 0xE6, CHR 0x9C, CHR 0xBA, CHR 0xE4,
      CHR 0xBD, CHR 0x8D, CHR 0xE7, CHR 0xBD, CHR 0xAE, CHR 0xE4, CHR 0xB8, CHR 0xBA]"
| "zh T_BulletAddedAt =
     [CHR 0xE5, CHR 0xAD, CHR 0x90, CHR 0xE5, CHR 0xBC, CHR 0xB9, CHR 0xE8, CHR 0xA2,
      CHR 0xAB, CHR 0xE6, CHR 0xB7, CHR 0xBB, CHR 0xE5, CHR 0x8A, CHR 0xA0, CHR 0xE5,
      CHR 0x88, CHR 0xB0, CHR 0xE4, CHR 0xBD, CHR 0x8D, CHR 0xE7, CHR 0xBD, CHR 0xAE,
      CHR 0x20]"
| "zh T_BulletAdded =
     [CHR 0xE4, CHR 0xB8, CHR 0x80, CHR 0xE4, CHR 0xB8, CHR 0xAA, CHR 0xE9, CHR 0xA2,
      CHR 0x9D, CHR 0xE5, CHR 0xA4, CHR 0x96, CHR 0xE7, CHR 0x9A, CHR 0x84, CHR 0xE5,
      CHR 0xAD, CHR 0x90, CHR 0xE5, CHR 0xBC, CHR 0xB9, CHR 0xE8, CHR 0xA2, CHR 0xAB,
      CHR 0xE6, CHR 0xB7, CHR 0xBB, CHR 0xE5, CHR 0x8A, CHR 0xA0, CHR 0xE5, CHR 0x88,
      CHR 0xB0, CHR 0xE6, CHR 0x9E, CHR 0xAA, CHR 0xE4, CHR 0xB8, CHR 0xAD]"
| "zh T_ChambersFull =
     [CHR 0xE6, CHR 0x89, CHR 0x80, CHR 0xE6, CHR 0x9C, CHR 0x89, CHR 0xE5, CHR 0xBC,
      CHR 0xB9, CHR 0xE5, CHR 0xB7, CHR 0xA2, CHR 0xE9, CHR 0x83, CHR 0xBD, CHR 0xE5,
      CHR 0xB7, CHR 0xB2, CHR 0xE6, CHR 0x9C, CHR 0x89, CHR 0xE5, CHR 0xAD, CHR 0x90,
      CHR 0xE5, CHR 0xBC, CHR 0xB9]"
| "zh T_ChecksPosition =
     [CHR 0x20, CHR 0xE6, CHR 0x9F, CHR 0xA5, CHR 0xE7, CHR 0x9C, CHR 0x8B, CHR 0xE4,
      CHR 0xBD, CHR 0x8D, CHR 0xE7, CHR 0xBD, CHR 0xAE, CHR 0x20]"
| "zh T_HasBullet =
     [CHR 0xE6, CHR 0x9C, CHR 0x89, CHR 0xE5, CHR 0xAD, CHR 0x90, CHR 0xE5, CHR 0xBC,
      CHR 0xB9]"
| "zh T_EmptyChamber =
     [CHR 0xE7, CHR 0xA9, CHR 0xBA, CHR 0xE5, CHR 0xBC, CHR 0xB9, CHR 0xE5, CHR 0xB7,
      CHR 0xA2]"
| "zh T_TriggerMoved =
     [CHR 0xE6, CHR 0x89, CHR 0xB3, CHR 0xE6, CHR 0x9C, CHR 0xBA, CHR 0xE7, CHR 0xA7,
      CHR 0xBB, CHR 0xE5, CHR 0x8A, CHR 0xA8, CHR 0xE5, CHR 0x88, CHR 0xB0, CHR 0xE4,
      CHR 0xBD, CHR 0x8D, CHR 0xE7, CHR 0xBD, CHR 0xAE, CHR 0x20]"
| "zh T_ContractActivated =
     [CHR 0xE5, CHR 0xA5, CHR 0x91, CHR 0xE7, CHR 0xBA, CHR 0xA6, CHR 0xE5, CHR 0xB7,
      CHR 0xB2, CHR 0xE6, CHR 0xBF, CHR 0x80, CHR 0xE6, CHR 0xB4, CHR 0xBB, CHR 0xEF,
      CHR 0xBC, CHR 0x8C, CHR 0xE6, CHR 0x8C, CHR 0x81, CHR 0xE7, CHR 0xBB, CHR 0xAD,
      CHR 0x33, CHR 0xE5, CHR 0x9B, CHR 0x9E, CHR 0xE5, CHR 0x90, CHR 0x88]"
| "zh T_ReverseActivated =
     [CHR 0xE5, CHR 0x8F, CHR 0x8D, CHR 0xE8, CHR 0xBD, CHR 0xAC, CHR 0xE6, CHR 0x95,
      CHR 0x88, CHR 0xE6, CHR 0x9E, CHR 0x9C, CHR 0xE5, CHR 0xB7, CHR 0xB2, CHR 0xE6,
      CHR 0xBF, CHR 0x80, CHR 0xE6, CHR 0xB4, CHR 0xBB, CHR 0xEF, CHR 0xBC, CHR 0x8C,
      CHR 0xE5, CHR 0xB0, CHR 0x86, CHR 0xE5, CHR 0xBD, CHR 0xB1, CHR 0xE5, CHR 0x93,
      CHR 0x8D, CHR 0xE4, CHR 0xB8, CHR 0x8B, CHR 0xE4, CHR 0xB8, CHR 0x80, CHR 0xE5,
      CHR 0x9B, CHR 0x9E, CHR 0xE5, CHR 0x90, CHR 0x88]"
| "zh T_FiredAt =
     [CHR 0xE5, CHR 0x9C, CHR 0xA8, CHR 0xE4, CHR 0xBD, CHR 0x8D, CHR 0xE7, CHR 0xBD,
      CHR 0xAE, CHR 0x20]"
| "zh T_FireResult =
     [CHR 0x20, CHR 0xE5, CHR 0xBC, CHR 0x80, CHR 0xE7, CHR 0x81, CHR 0xAB, CHR 0xEF,
      CHR 0xBC, CHR 0x8C, CHR 0xE7, CHR 0xBB, CHR 0x93, CHR 0xE6, CHR 0x9E, CHR 0x9C,
      CHR 0x3A, CHR 0x20]"
| "zh T_Hit =
     [CHR 0xE5, CHR 0x91, CHR 0xBD, CHR 0xE4, CHR 0xB8, CHR 0xAD]"
| "zh T_Miss =
     [CHR 0xE7, CHR 0xA9, CHR 0xBA, CHR 0xE5, CHR 0xBC, CHR 0xB9]"
| "zh T_ContractEnded =
     [CHR 0xE5, CHR 0xA5, CHR 0x91, CHR 0xE7, CHR 0xBA, CHR 0xA6, CHR 0xE6, CHR 0x95,
      CHR 0x88, CHR 0xE6, CHR 0x9E, CHR 0x9C, CHR 0xE5, CHR 0xB7, CHR 0xB2, CHR 0xE7,
      CHR 0xBB, CHR 0x93, CHR 0xE6, CHR 0x9D, CHR 0x9F]"
| "zh T_InvalidItem =
     [CHR 0xE6, CHR 0x97, CHR 0xA0, CHR 0xE6, CHR 0x95, CHR 0x88, CHR 0xE9, CHR 0x81,
      CHR 0x93, CHR 0xE5, CHR 0x85, CHR 0xB7, CHR 0xE6, CHR 0x88, CHR 0x96, CHR 0xE6,
      CHR 0x9C, CHR 0xAA, CHR 0xE4, CHR 0xBD, CHR 0xBF, CHR 0xE7, CHR 0x94, CHR 0xA8,
      CHR 0xE9, CHR 0x81, CHR 0x93, CHR 0xE5, CHR 0x85, CHR 0xB7]"
| "zh T_ItemBullet =
     [CHR 0xE5, CHR 0xAD, CHR 0x90, CHR 0xE5, CHR 0xBC, CHR 0xB9]"
| "zh T_ItemCheck =
     [CHR 0xE6, CHR 0x9F, CHR 0xA5, CHR 0xE7, CHR 0x9C, CHR 0x8B]"
| "zh T_ItemReverse =
     [CHR 0xE5, CHR 0x8F, CHR 0x8D, CHR 0xE8, CHR 0xBD, CHR 0xAC]"
| "zh T_ItemContract =
     [CHR 0xE5, CHR 0xA5, CHR 0x91, CHR 0xE7, CHR 0xBA, CHR 0xA6]"
| "zh T_ItemPush =
     [CHR 0xE6, CHR 0x8E, CHR 0xA8, CHR 0xE5, CHR 0x8A, CHR 0xA8]"
| "zh T_InvalidPosition =
     [CHR 0xE6, CHR 0x97, CHR 0xA0, CHR 0xE6, CHR 0x95, CHR 0x88, CHR 0xE4, CHR 0xBD,
      CHR 0x8D, CHR 0xE7, CHR 0xBD, CHR 0xAE, CHR 0xEF, CHR 0xBC, CHR 0x8C, CHR 0xE5,
      CHR 0xBA, CHR 0x94, CHR 0xE4, CHR 0xB8, CHR 0xBA, CHR 0x31, CHR 0x2D]"
| "zh T_PositionIs =
     [CHR 0xE4, CHR 0xBD, CHR 0x8D, CHR 0xE7, CHR 0xBD, CHR 0xAE, CHR 0x20]"
| "zh T_PositionMid =
     [CHR 0x20, CHR 0xE6, CHR 0x98, CHR 0xAF]"
| "zh T_PositionHas =
     [CHR 0xE6, CHR 0x9C, CHR 0x89]"
| "zh T_PositionEmpty =
     [CHR 0xE7, CHR 0xA9, CHR 0xBA]"
| "zh T_PositionEnd =
     [CHR 0xE5, CHR 0xBC, CHR 0xB9]"
| "zh T_NeedPosition =
     [CHR 0xE6, CHR 0x9F, CHR 0xA5, CHR 0xE7, CHR 0x9C, CHR 0x8B, CHR 0xE9, CHR 0x81,
      CHR 0x93, CHR 0xE5, CHR 0x85, CHR 0xB7, CHR 0xE9, CHR 0x9C, CHR 0x80, CHR 0xE8,
      CHR 0xA6, CHR 0x81, CHR 0xE4, CHR 0xB8, CHR 0x80, CHR 0xE4, CHR 0xB8, CHR 0xAA,
      CHR 0xE6, CHR 0x9C, CHR 0x89, CHR 0xE6, CHR 0x95, CHR 0x88, CHR 0xE7, CHR 0x9A,
      CHR 0x84, CHR 0xE4, CHR 0xBD, CHR 0x8D, CHR 0xE7, CHR 0xBD, CHR 0xAE, CHR 0xE5,
      CHR 0x8F, CHR 0x82, CHR 0xE6, CHR 0x95, CHR 0xB0]"
| "zh T_Used =
     [CHR 0x20, CHR 0xE4, CHR 0xBD, CHR 0xBF, CHR 0xE7, CHR 0x94, CHR 0xA8, CHR 0xE4,
      CHR 0xBA, CHR 0x86, CHR 0x20]"
| "zh T_UsedSep =
     [CHR 0xEF, CHR 0xBC, CHR 0x9A]"
| "zh T_Proposes =
     [CHR 0x20, CHR 0xE6, CHR 0x8F, CHR 0x90, CHR 0xE5, CHR 0x87, CHR 0xBA, CHR 0xE5,
      CHR 0x8D, CHR 0x8F, CHR 0xE5, CHR 0x95, CHR 0x86, CHR 0x3A, CHR 0x20]"
| "zh T_Responds =
     [CHR 0x20, CHR 0xE5, CHR 0x9B, CHR 0x9E, CHR 0xE5, CHR 0xBA, CHR 0x94, CHR 0x3A,
      CHR 0x20]"
| "zh T_Agree =
     [CHR 0xE5, CHR 0x90, CHR 0x8C, CHR 0xE6, CHR 0x84, CHR 0x8F]"
| "zh T_Says =
     [CHR 0x20, CHR 0xE8, CHR 0xAF, CHR 0xB4, CHR 0x3A, CHR 0x20]"
| "zh T_StaysSilent =
     [CHR 0x20, CHR 0xE9, CHR 0x80, CHR 0x89, CHR 0xE6, CHR 0x8B, CHR 0xA9, CHR 0xE4,
      CHR 0xBF, CHR 0x9D, CHR 0xE6, CHR 0x8C, CHR 0x81, CHR 0xE6, CHR 0xB2, CHR 0x89,
      CHR 0xE9, CHR 0xBB, CHR 0x98]"
| "zh T_Self =
     [CHR 0xE8, CHR 0x87, CHR 0xAA, CHR 0xE5, CHR 0xB7, CHR 0xB1]"
| "zh T_Opponent =
     [CHR 0xE5, CHR 0xAF, CHR 0xB9, CHR 0xE9, CHR 0x9D, CHR 0xA2]"
| "zh T_Negotiate =
     [CHR 0xE5, CHR 0x8D, CHR 0x8F, CHR 0xE5, CHR 0x95, CHR 0x86]"
| "zh T_Talk =
     [CHR 0xE8, CHR 0xB0, CHR 0x88, CHR 0xE8, CHR 0xAF, CHR 0x9D]"

primrec en :: "phrase \<Rightarrow> string" where
  "en T_Init = ''Game initialized: ''"
| "en T_InitLoadedAt = '' bullets randomly loaded at positions ''"
| "en T_InitTrigger = '', initial trigger position is ''"
| "en T_InitLoaded = '' bullets randomly loaded, initial trigger position is ''"
| "en T_BulletAddedAt = ''Bullet added to position ''"
| "en T_BulletAdded = ''An extra bullet has been added to the gun''"
| "en T_ChambersFull = ''All chambers already have bullets''"
| "en T_ChecksPosition = '' checks position ''"
| "en T_HasBullet = ''has bullet''"
| "en T_EmptyChamber = ''empty chamber''"
| "en T_TriggerMoved = ''Trigger moved to position ''"
| "en T_ContractActivated = ''Contract activated, lasts for 3 turns''"
| "en T_ReverseActivated = ''Reverse effect activated, will affect next turn''"
| "en T_FiredAt = ''Fired at position ''"
| "en T_FireResult = '', result: ''"
| "en T_Hit = ''hit''"
| "en T_Miss = ''empty''"
| "en T_ContractEnded = ''Contract effect has ended''"
| "en T_InvalidItem = ''Invalid item or no item used''"
| "en T_ItemBullet = ''Bullet''"
| "en T_ItemCheck = ''Check''"
| "en T_ItemReverse = ''Reverse''"
| "en T_ItemContract = ''Contract''"
| "en T_ItemPush = ''Push''"
| "en T_InvalidPosition = ''Invalid position, should be 1-''"
| "en T_PositionIs = ''Position ''"
| "en T_PositionMid = '' ''"
| "en T_PositionHas = ''has a bullet''"
| "en T_PositionEmpty = ''is empty''"
| "en T_PositionEnd = []"
| "en T_NeedPosition = ''Check item requires a valid position parameter''"
| "en T_Used = '' used ''"
| "en T_UsedSep = '': ''"
| "en T_Proposes = '' proposes negotiation: ''"
| "en T_Responds = '' responds: ''"
| "en T_Agree = ''agree''"
| "en T_Says = '' says: ''"
| "en T_StaysSilent = '' chooses to remain silent''"
| "en T_Self = ''Self''"
| "en T_Opponent = ''Opponent''"
| "en T_Negotiate = ''Negotiate''"
| "en T_Talk = ''Talk''"

definition tr :: "lang \<Rightarrow> phrase \<Rightarrow> string" where
  "tr L t = (case L of ZH \<Rightarrow> zh t | EN \<Rightarrow> en t)"

definition bullet_divisor :: "lang \<Rightarrow> int" where
  "bullet_divisor L = (case L of ZH \<Rightarrow> 2 | EN \<Rightarrow> 3)"

section \<open>GameState\<close>

text \<open>
  Class \<open>GameState\<close>. \<open>last_active_player\<close> holds a reference to a \<open>Player\<close> object or
  \<open>None\<close>; players are compared by identity, so the reference is modelled by the player's
  index in \<open>GameController.players\<close>. \<open>reset_reverse\<close> is an attribute that
  \<open>process_player_turn\<close> creates on first use and tests with \<open>hasattr\<close>: \<open>None\<close> is the
  absent attribute.
\<close>

record game_state =
  chamber_count :: int
  bullets :: "int list"
  current_position :: int
  logs :: "string list"
  player_logs :: "string list"
  contract_active :: bool
  contract_turns_left :: int
  reverse_active :: bool
  last_active_player :: "nat option"
  reset_reverse :: "bool option"

definition new_game_state :: "int \<Rightarrow> game_state" where
  "new_game_state n =
     \<lparr>chamber_count = n, bullets = [], current_position = 0, logs = [], player_logs = [],
      contract_active = False, contract_turns_left = 0, reverse_active = False,
      last_active_player = None, reset_reverse = None\<rparr>"

text \<open>\<open>initialize_gun\<close>, with the three draws of the random module as arguments: the bullet
  count, the shuffle and the initial trigger position.\<close>

definition initialize_gun ::
  "lang \<Rightarrow> nat \<Rightarrow> (nat \<Rightarrow> nat) \<Rightarrow> nat \<Rightarrow> game_state \<Rightarrow> error + game_state" where
  "initialize_gun L r_count r_shuffle r_pos st =
     (case randint 1 (chamber_count st div bullet_divisor L) r_count of
        Inl e \<Rightarrow> Inl e
      | Inr bullet_count \<Rightarrow>
          (let all_positions = shuffle r_shuffle (range_list (chamber_count st));
               bs = sort (take (nat bullet_count) all_positions)
           in case randint 0 (chamber_count st - 1) r_pos of
                Inl e \<Rightarrow> Inl e
              | Inr pos \<Rightarrow>
                  Inr (st\<lparr>bullets := bs,
                          current_position := pos,
                          logs := logs st @
                            [tr L T_Init @ str_int bullet_count @ tr L T_InitLoadedAt @
                             repr_int_list (map (\<lambda>p. p + 1) bs) @ tr L T_InitTrigger @
                             str_int (pos + 1)],
                          player_logs := player_logs st @
                            [tr L T_Init @ str_int bullet_count @ tr L T_InitLoaded @
                             str_int (pos + 1)]\<rparr>)))"

text \<open>\<open>add_bullet\<close> returns the pair (spectator message, player message).\<close>

definition add_bullet :: "lang \<Rightarrow> nat \<Rightarrow> game_state \<Rightarrow> (string \<times> string) \<times> game_state" where
  "add_bullet L r st =
     (let empty_chambers = filter (\<lambda>i. i \<notin> set (bullets st)) (range_list (chamber_count st))
      in if empty_chambers \<noteq> [] then
           (let new_bullet = choice empty_chambers r
            in ((tr L T_BulletAddedAt @ str_int (new_bullet + 1), tr L T_BulletAdded),
                st\<lparr>bullets := sort (bullets st @ [new_bullet])\<rparr>))
         else ((tr L T_ChambersFull, tr L T_ChambersFull), st))"

definition check_chamber ::
  "lang \<Rightarrow> int \<Rightarrow> string \<Rightarrow> game_state \<Rightarrow> error + (bool \<times> game_state)" where
  "check_chamber L position player_name st =
     (if position < 0 \<or> position \<ge> chamber_count st then Inl ValueError
      else
        (let has_bullet = (position \<in> set (bullets st))
         in Inr (has_bullet,
                 st\<lparr>logs := logs st @
                   [player_name @ tr L T_ChecksPosition @ str_int (position + 1) @ '': '' @
                    (if has_bullet then tr L T_HasBullet else tr L T_EmptyChamber)]\<rparr>)))"

text \<open>\<open>x % 0\<close> raises \<open>ZeroDivisionError\<close>; for a divisor other than 0 Python's \<open>%\<close> on
  integers is \<open>mod\<close> on \<open>int\<close> (the result has the sign of the divisor).\<close>

definition move_position :: "lang \<Rightarrow> game_state \<Rightarrow> error + (string \<times> game_state)" where
  "move_position L st =
     (if chamber_count st = 0 then Inl ZeroDivisionError
      else
        (let pos = (current_position st + 1) mod chamber_count st
         in Inr (tr L T_TriggerMoved @ str_int (pos + 1), st\<lparr>current_position := pos\<rparr>)))"

definition activate_contract :: "lang \<Rightarrow> game_state \<Rightarrow> string \<times> game_state" where
  "activate_contract L st =
     (tr L T_ContractActivated, st\<lparr>contract_active := True, contract_turns_left := 3\<rparr>)"

definition activate_reverse :: "lang \<Rightarrow> game_state \<Rightarrow> string \<times> game_state" where
  "activate_reverse L st = (tr L T_ReverseActivated, st\<lparr>reverse_active := True\<rparr>)"

text \<open>\<open>fire\<close>: the two log entries are written before the position advances, so the
  division by a zero \<open>chamber_count\<close> is raised after them; the exception ends the run.\<close>

definition fire_entry :: "lang \<Rightarrow> game_state \<Rightarrow> string" where
  "fire_entry L st =
     tr L T_FiredAt @ str_int (current_position st + 1) @ tr L T_FireResult @
     (if current_position st \<in> set (bullets st) then tr L T_Hit else tr L T_Miss)"

definition fire :: "lang \<Rightarrow> game_state \<Rightarrow> error + (bool \<times> game_state)" where
  "fire L st =
     (let was_bullet = (current_position st \<in> set (bullets st));
          st1 = st\<lparr>logs := logs st @ [fire_entry L st],
                    player_logs := player_logs st @ [fire_entry L st]\<rparr>
      in if chamber_count st1 = 0 then Inl ZeroDivisionError
         else
           (let st2 = st1\<lparr>current_position := (current_position st1 + 1) mod chamber_count st1\<rparr>;
                st3 = (if contract_active st2 then
                         (let st' = st2\<lparr>contract_turns_left := contract_turns_left st2 - 1\<rparr>
                          in if contract_turns_left st' \<le> 0 then
                               st'\<lparr>contract_active := False,
                                   logs := logs st' @ [tr L T_ContractEnded],
                                   player_logs := player_logs st' @ [tr L T_ContractEnded]\<rparr>
                             else st')
                       else st2)
            in Inr (was_bullet, st3)))"

definition add_player_communication :: "string \<Rightarrow> game_state \<Rightarrow> game_state" where
  "add_player_communication message st =
     st\<lparr>logs := logs st @ [message], player_logs := player_logs st @ [message]\<rparr>"

section \<open>Player\<close>

text \<open>
  Class \<open>Player\<close>. \<open>llm_client\<close> is \<open>None\<close> exactly when \<open>llm_type\<close> is \<open>None\<close> (the
  constructor builds the client from the type), so the record keeps \<open>llm_type\<close> only.
\<close>

record player =
  name :: string
  llm_type :: "string option"
  items :: "string list"
  alive :: bool
  role :: string
  style :: string

definition remove_item :: "string \<Rightarrow> player \<Rightarrow> bool \<times> player" where
  "remove_item item p =
     (if item \<in> set (items p) then (True, p\<lparr>items := remove1 item (items p)\<rparr>)
      else (False, p))"

section \<open>GameController\<close>

text \<open>
  The headers the controller prints are its only report of how a turn and the match were
  resolved; the ones that mark the control flow are kept as a list of events, \<open>console\<close>:
  the turn header (line 607), the negotiated draw (530), the reverse warning (552), the
  fire header with the target that is fired at (560), the two hit headers (569, 573), the
  contract check (614) and its effect (590), and the final classification (622 to 631).
  The prompts sent to the agents, the parser of their replies (\<open>parse_response\<close>), the
  distribution of the items (\<open>setup_game\<close>) and the rest of the console output are outside
  the model: a turn takes the parsed reply as its input.
\<close>

datatype event =
    TurnHeader nat
  | NegotiationSuccess
  | ReverseWarning string string
  | FireHeader string string
  | SelfHit string
  | OpponentHit string
  | ContractCheck
  | ContractTriggered
  | GameOver
  | AllDeadDraw
  | MaxTurnsDraw
  | Winner string

record controller =
  game_state :: game_state
  players :: "player list"
  current_player_idx :: nat
  console :: "event list"

text \<open>
  \<open>handle_item_usage\<close> receives the acting \<open>Player\<close> object; the model passes the player
  and its index (for \<open>last_active_player\<close>) and returns the message with the updated player
  and game state. The \<open>try\<close> of the \<open>Check\<close> branch catches \<open>ValueError\<close> and \<open>TypeError\<close>
  from \<open>int(param)\<close> and from \<open>check_chamber\<close>.
\<close>

definition handle_item_usage ::
  "lang \<Rightarrow> nat \<Rightarrow> player \<Rightarrow> string option \<Rightarrow> string option \<Rightarrow> nat \<Rightarrow> game_state
     \<Rightarrow> error + (string \<times> player \<times> game_state)" where
  "handle_item_usage L idx p item param r gs =
     (case item of
        None \<Rightarrow> Inr (tr L T_InvalidItem, p, gs)
      | Some it \<Rightarrow>
          if it \<notin> set (items p) then Inr (tr L T_InvalidItem, p, gs)
          else
            (case
               (if it = tr L T_ItemBullet then
                  (case add_bullet L r gs of
                     ((spec_msg, player_msg), gs') \<Rightarrow>
                       Inr (spec_msg, player_msg, snd (remove_item (tr L T_ItemBullet) p), gs'))
                else if it = tr L T_ItemCheck then
                  (case
                     (case py_int param of
                        Inl e \<Rightarrow> Inl e
                      | Inr v \<Rightarrow>
                          (let position = v - 1
                           in if position < 0 \<or> position \<ge> chamber_count gs then
                                Inr (tr L T_InvalidPosition @ str_int (chamber_count gs),
                                     tr L T_InvalidPosition @ str_int (chamber_count gs), p, gs)
                              else
                                (case check_chamber L position (name p) gs of
                                   Inl e \<Rightarrow> Inl e
                                 | Inr (has_bullet, gs') \<Rightarrow>
                                     Inr (name p @ tr L T_ChecksPosition @ str_int (position + 1),
                                          tr L T_PositionIs @ str_int (position + 1) @
                                          tr L T_PositionMid @
                                          (if has_bullet then tr L T_PositionHas
                                           else tr L T_PositionEmpty) @
                                          tr L T_PositionEnd,
                                          snd (remove_item (tr L T_ItemCheck) p), gs'))))
                   of
                     Inl e \<Rightarrow>
                       if e = ValueError \<or> e = TypeError then
                         Inr (tr L T_NeedPosition, tr L T_NeedPosition, p, gs)
                       else Inl e
                   | Inr res \<Rightarrow> Inr res)
                else if it = tr L T_ItemReverse then
                  (case activate_reverse L gs of
                     (msg, gs') \<Rightarrow>
                       Inr (msg, msg, snd (remove_item (tr L T_ItemReverse) p),
                            gs'\<lparr>last_active_player := Some idx\<rparr>))
                else if it = tr L T_ItemContract then
                  (case activate_contract L gs of
                     (msg, gs') \<Rightarrow>
                       Inr (msg, msg, snd (remove_item (tr L T_ItemContract) p), gs'))
                else if it = tr L T_ItemPush then
                  (case move_position L gs of
                     Inl e \<Rightarrow> Inl e
                   | Inr (msg, gs') \<Rightarrow>
                       Inr (msg, msg, snd (remove_item (tr L T_ItemPush) p), gs'))
                else Inr ([], [], p, gs))
             of
               Inl e \<Rightarrow> Inl e
             | Inr (spec_message, player_message, p', gs') \<Rightarrow>
                 Inr (player_message, p',
                      gs'\<lparr>logs := logs gs' @
                            [name p @ tr L T_Used @ it @ tr L T_UsedSep @ spec_message],
                          player_logs := player_logs gs' @ [name p @ tr L T_Used @ it]\<rparr>)))"

text \<open>
  What a turn consumes from outside the engine: the parsed reply of the acting player's
  agent (the dictionary built by \<open>parse_response\<close>, a missing key is \<open>None\<close>; in the
  branches that read \<open>message\<close> the parser always stores a string), the reply of the
  opponent's agent to a negotiation, and the draw for \<open>random.choice\<close> in \<open>add_bullet\<close>. A
  reply is \<open>None\<close> when \<open>send_message\<close> raised.
\<close>

record parsed =
  p_item :: "string option"
  p_item_param :: "string option"
  p_communication :: "string option"
  p_message :: "string option"
  p_target :: "string option"

record turn_input =
  ai_parsed :: "parsed option"
  opponent_response :: "string option"
  draw :: nat

definition opponent_idx :: "nat \<Rightarrow> controller \<Rightarrow> nat" where
  "opponent_idx player_idx c = (player_idx + 1) mod length (players c)"

text \<open>Step 1 of \<open>process_player_turn\<close>, lines 496 to 502: the item is handled only when the
  parsed item is a non-empty string.\<close>

definition turn_item_usage ::
  "lang \<Rightarrow> nat \<Rightarrow> parsed \<Rightarrow> nat \<Rightarrow> controller \<Rightarrow> error + controller" where
  "turn_item_usage L player_idx d r c =
     (if p_item d \<noteq> None \<and> p_item d \<noteq> Some [] then
        (case handle_item_usage L player_idx (players c ! player_idx) (p_item d)
                (p_item_param d) r (game_state c) of
           Inl e \<Rightarrow> Inl e
         | Inr (result, p', gs') \<Rightarrow>
             Inr (c\<lparr>players := (players c)[player_idx := p'], game_state := gs'\<rparr>))
      else Inr c)"

text \<open>Step 2, lines 504 to 544. The result is \<open>False\<close> when the negotiation was accepted
  and the turn returns \<open>False\<close> at line 531.\<close>

definition turn_communication ::
  "lang \<Rightarrow> nat \<Rightarrow> parsed \<Rightarrow> string option \<Rightarrow> controller \<Rightarrow> error + (bool \<times> controller)" where
  "turn_communication L player_idx d resp c =
     (let player = players c ! player_idx;
          opponent = players c ! opponent_idx player_idx c;
          message = (case p_message d of Some m \<Rightarrow> m | None \<Rightarrow> [])
      in if p_communication d = Some (tr L T_Negotiate) then
           (let gs1 = add_player_communication (name player @ tr L T_Proposes @ message)
                        (game_state c)
            in if llm_type opponent = None then Inl AttributeError
               else
                 (case resp of
                    None \<Rightarrow> Inl ApiError
                  | Some response \<Rightarrow>
                      (let gs2 = add_player_communication
                                   (name opponent @ tr L T_Responds @ response) gs1
                       in if contains (tr L T_Agree) (lower response) then
                            Inr (False, c\<lparr>game_state := gs2,
                                          console := console c @ [NegotiationSuccess]\<rparr>)
                          else Inr (True, c\<lparr>game_state := gs2\<rparr>))))
         else if p_communication d = Some (tr L T_Talk) then
           Inr (True, c\<lparr>game_state :=
                  add_player_communication (name player @ tr L T_Says @ message) (game_state c)\<rparr>)
         else
           Inr (True, c\<lparr>game_state :=
                  add_player_communication (name player @ tr L T_StaysSilent) (game_state c)\<rparr>))"

text \<open>Step 3, lines 546 to 583: the reverse rule, the fire and the casualty.\<close>

definition flip_target :: "lang \<Rightarrow> string \<Rightarrow> string" where
  "flip_target L target = (if target = tr L T_Opponent then tr L T_Self else tr L T_Opponent)"

definition turn_fire ::
  "lang \<Rightarrow> nat \<Rightarrow> parsed \<Rightarrow> controller \<Rightarrow> error + (bool \<times> controller)" where
  "turn_fire L player_idx d c =
     (let player = players c ! player_idx;
          opp = opponent_idx player_idx c;
          gs = game_state c;
          target0 = (case p_target d of Some t \<Rightarrow> t | None \<Rightarrow> tr L T_Opponent);
          reversed = (reverse_active gs \<and> last_active_player gs \<noteq> Some player_idx);
          target = (if reversed then flip_target L target0 else target0);
          gs1 = (if reversed then gs\<lparr>reset_reverse := Some True\<rparr> else gs);
          gs2 = (if reset_reverse gs1 = Some True then
                   gs1\<lparr>reverse_active := False, reset_reverse := Some False\<rparr>
                 else gs1);
          out = console c @ (if reversed then [ReverseWarning (name player) target] else []) @
                [FireHeader (name player) target]
      in case fire L gs2 of
           Inl e \<Rightarrow> Inl e
         | Inr (was_hit, gs3) \<Rightarrow>
             if was_hit then
               (if target = tr L T_Self then
                  Inr (False, c\<lparr>game_state := gs3,
                                players := (players c)[player_idx := player\<lparr>alive := False\<rparr>],
                                console := out @ [SelfHit (name player)]\<rparr>)
                else
                  Inr (False, c\<lparr>game_state := gs3,
                                players := (players c)[opp := (players c ! opp)\<lparr>alive := False\<rparr>],
                                console := out @ [OpponentHit (name (players c ! opp))]\<rparr>))
             else Inr (True, c\<lparr>game_state := gs3, console := out\<rparr>))"

text \<open>\<open>process_player_turn\<close>: \<open>self.players[player_idx]\<close> raises \<open>IndexError\<close> out of range;
  a player without a client is skipped and the game continues.\<close>

definition process_player_turn ::
  "lang \<Rightarrow> nat \<Rightarrow> turn_input \<Rightarrow> controller \<Rightarrow> error + (bool \<times> controller)" where
  "process_player_turn L player_idx inp c =
     (if player_idx \<ge> length (players c) then Inl IndexError
      else if llm_type (players c ! player_idx) = None then Inr (True, c)
      else
        (case ai_parsed inp of
           None \<Rightarrow> Inl ApiError
         | Some d \<Rightarrow>
             (case turn_item_usage L player_idx d (draw inp) c of
                Inl e \<Rightarrow> Inl e
              | Inr c1 \<Rightarrow>
                  (case turn_communication L player_idx d (opponent_response inp) c1 of
                     Inl e \<Rightarrow> Inl e
                   | Inr (continue, c2) \<Rightarrow>
                       if continue then turn_fire L player_idx d c2 else Inr (False, c2)))))"

definition check_contract_effect :: "controller \<Rightarrow> bool \<times> controller" where
  "check_contract_effect c =
     (if contract_active (game_state c) \<and> filter (\<lambda>p. \<not> alive p) (players c) \<noteq> [] then
        (False, c\<lparr>players := map (\<lambda>p. p\<lparr>alive := False\<rparr>) (players c),
                   console := console c @ [ContractTriggered]\<rparr>)
      else (True, c))"

text \<open>
  \<open>run_game\<close>. The loop variable \<open>game_active\<close> is true at every test of the loop condition
  (a false value leaves by \<open>break\<close>), so the loop is a recursion on \<open>turn_count\<close>; its
  result is \<open>game_active\<close>, \<open>turn_count\<close> and the controller when the loop is left.
\<close>

definition max_turns :: nat where
  "max_turns = 30"

function game_loop ::
  "lang \<Rightarrow> (nat \<Rightarrow> turn_input) \<Rightarrow> nat \<Rightarrow> controller \<Rightarrow> error + (bool \<times> nat \<times> controller)" where
  "game_loop L inp turn_count c =
     (if turn_count < max_turns then
        (case process_player_turn L (current_player_idx c) (inp turn_count)
                (c\<lparr>console := console c @ [TurnHeader (turn_count + 1)]\<rparr>) of
           Inl e \<Rightarrow> Inl e
         | Inr (game_active, c1) \<Rightarrow>
             if \<not> game_active then
               Inr (False, turn_count,
                    if contract_active (game_state c1) then
                      snd (check_contract_effect (c1\<lparr>console := console c1 @ [ContractCheck]\<rparr>))
                    else c1)
             else
               game_loop L inp (turn_count + 1)
                 (c1\<lparr>current_player_idx :=
                       (current_player_idx c1 + 1) mod length (players c1)\<rparr>))
      else Inr (True, turn_count, c))"
  by pat_completeness auto
termination
  by (relation "measure (\<lambda>(L, inp, turn_count, c). max_turns - turn_count)") auto

declare game_loop.simps [simp del]

definition classification :: "controller \<Rightarrow> event list" where
  "classification c =
     (let alive_players = filter alive (players c)
      in if alive_players = [] then [AllDeadDraw]
         else if length alive_players = length (players c) then [MaxTurnsDraw]
         else map (\<lambda>p. Winner (name p)) alive_players)"

definition run_game ::
  "lang \<Rightarrow> (nat \<Rightarrow> turn_input) \<Rightarrow> controller \<Rightarrow> error + (nat \<times> controller)" where
  "run_game L inp c =
     (case game_loop L inp 0 c of
        Inl e \<Rightarrow> Inl e
      | Inr (game_active, turn_count, c') \<Rightarrow>
          Inr (turn_count, c'\<lparr>console := console c' @ GameOver # classification c'\<rparr>))"

section \<open>Concrete games\<close>

text \<open>
  The two players of \<open>main\<close>, with an inventory in the item names of the variant, and the
  replies of an agent that uses no item, stays silent and names no target (the parser's
  result for a reply without any section).
\<close>

definition bill :: "lang \<Rightarrow> player" where
  "bill L = \<lparr>name = ''Bill'', llm_type = Some ''anthropic'',
             items = [tr L T_ItemBullet, tr L T_ItemCheck, tr L T_ItemReverse],
             alive = True, role = ''Gambler'', style = ''bold''\<rparr>"

definition lee :: "lang \<Rightarrow> player" where
  "lee L = \<lparr>name = ''Lee'', llm_type = Some ''openai'',
            items = [tr L T_ItemReverse, tr L T_ItemContract],
            alive = True, role = ''Detective'', style = ''calm''\<rparr>"

definition no_reply :: parsed where
  "no_reply = \<lparr>p_item = None, p_item_param = None, p_communication = None,
               p_message = None, p_target = None\<rparr>"

definition quiet :: turn_input where
  "quiet = \<lparr>ai_parsed = Some no_reply, opponent_response = None, draw = 0\<rparr>"

definition duel :: "lang \<Rightarrow> game_state \<Rightarrow> controller" where
  "duel L gs = \<lparr>game_state = gs, players = [bill L, lee L], current_player_idx = 0,
                console = []\<rparr>"

text \<open>The gun of the scenario of the specification: six chambers, bullets in chambers 0
  and 2, the trigger at chamber 0.\<close>

definition scenario_gun :: game_state where
  "scenario_gun = (new_game_state 6)\<lparr>bullets := [0, 2], current_position := 0\<rparr>"

text \<open>A gun whose next chamber is loaded, with the contract in its last turn.\<close>

definition contract_last_turn :: game_state where
  "contract_last_turn =
     (new_game_state 6)\<lparr>bullets := [0], current_position := 0,
                         contract_active := True, contract_turns_left := 1\<rparr>"

text \<open>A gun whose next chamber is empty, with the contract in its last turn.\<close>

definition contract_last_turn_miss :: game_state where
  "contract_last_turn_miss =
     (new_game_state 6)\<lparr>bullets := [3], current_position := 0,
                         contract_active := True, contract_turns_left := 1\<rparr>"

text \<open>A gun with the next chamber empty: one bullet in chamber 2 of six.\<close>

definition quiet_gun :: game_state where
  "quiet_gun = (new_game_state 6)\<lparr>bullets := [2], current_position := 0\<rparr>"

text \<open>A hundred chambers with one bullet in the last: thirty fires from chamber 0 miss.\<close>

definition long_gun :: game_state where
  "long_gun = (new_game_state 100)\<lparr>bullets := [99], current_position := 0\<rparr>"

text \<open>A proposal to negotiate, and the opponent's accepting reply in each variant.\<close>

definition proposal :: "lang \<Rightarrow> turn_input" where
  "proposal L =
     \<lparr>ai_parsed = Some (no_reply\<lparr>p_communication := Some (tr L T_Negotiate),
                                   p_message := Some ''draw''\<rparr>),
      opponent_response = Some (tr L T_Agree), draw = 0\<rparr>"

text \<open>A reply that uses the Reverse item and fires at the opponent.\<close>

definition reverse_reply :: "lang \<Rightarrow> turn_input" where
  "reverse_reply L =
     \<lparr>ai_parsed = Some (no_reply\<lparr>p_item := Some (tr L T_ItemReverse),
                                   p_target := Some (tr L T_Opponent)\<rparr>),
      opponent_response = None, draw = 0\<rparr>"

text \<open>The state after Bill (index 0) has activated Reverse.\<close>

definition reversed_by_bill :: game_state where
  "reversed_by_bill = quiet_gun\<lparr>reverse_active := True, last_active_player := Some 0\<rparr>"

text \<open>What a finished match shows: the number of completed turns, the printed events and
  which players are alive.\<close>

definition outcome ::
  "error + (nat \<times> controller) \<Rightarrow> error + (nat \<times> event list \<times> bool list)" where
  "outcome r =
     (case r of
        Inl e \<Rightarrow> Inl e
      | Inr (n, c) \<Rightarrow> Inr (n, console c, map alive (players c)))"

text \<open>Bill activates Reverse on the first turn, Lee activates Reverse on the second, both
  fire at the opponent; from the third turn on the agents use nothing more.\<close>

definition reverse_duel :: "lang \<Rightarrow> nat \<Rightarrow> turn_input" where
  "reverse_duel L n = (if n < 2 then reverse_reply L else quiet)"

text \<open>Reading the printed events: the headers that open a turn, and the events that only an
  ending turn prints (an accepted negotiation or a hit).\<close>

fun is_turn_header :: "event \<Rightarrow> bool" where
  "is_turn_header (TurnHeader n) = True"
| "is_turn_header e = False"

fun ends_match :: "event \<Rightarrow> bool" where
  "ends_match NegotiationSuccess = True"
| "ends_match (SelfHit who) = True"
| "ends_match (OpponentHit who) = True"
| "ends_match e = False"

definition turn_headers :: "event list \<Rightarrow> nat" where
  "turn_headers evs = length (filter is_turn_header evs)"

section \<open>Unfolding the engine\<close>

lemmas turn_defs =
  process_player_turn_def turn_item_usage_def turn_communication_def turn_fire_def
  opponent_idx_def flip_target_def add_player_communication_def fire_def fire_entry_def
  check_contract_effect_def classification_def run_game_def max_turns_def Let_def

lemmas game_defs =
  duel_def bill_def lee_def quiet_def no_reply_def proposal_def reverse_reply_def
  contract_last_turn_def contract_last_turn_miss_def quiet_gun_def long_gun_def
  reversed_by_bill_def scenario_gun_def new_game_state_def reverse_duel_def outcome_def

section \<open>The chamber model\<close>

text \<open>
  Claim C5. For every gun state with a chamber count other than 0 (for 0 the advance raises
  \<open>ZeroDivisionError\<close>), in both variants, \<open>fire\<close> returns hit exactly when
  \<open>current_position\<close> is in \<open>bullets\<close> and leaves \<open>current_position\<close> advanced by 1 modulo
  \<open>chamber_count\<close>, on a hit as on a miss, with the bullets and the chamber count as they
  were. In the scenario (six chambers, bullets in 0 and 2, trigger at 0) the first fire is
  a hit and leaves position 1, the second is a miss and leaves position 2.
\<close>

theorem fire_hit_iff_bullet_and_advance:
  "(\<forall>L (st::game_state). chamber_count st \<noteq> 0 \<longrightarrow>
      (\<exists>st'. fire L st = Inr (current_position st \<in> set (bullets st), st') \<and>
         current_position st' = (current_position st + 1) mod chamber_count st \<and>
         bullets st' = bullets st \<and> chamber_count st' = chamber_count st)) \<and>
   (\<forall>L. \<exists>s1 s2. fire L scenario_gun = Inr (True, s1) \<and> current_position s1 = 1 \<and>
      fire L s1 = Inr (False, s2) \<and> current_position s2 = 2)"
proof (intro conjI allI impI)
  fix L and st :: game_state
  assume "chamber_count st \<noteq> 0"
  then show "\<exists>st'. fire L st = Inr (current_position st \<in> set (bullets st), st') \<and>
         current_position st' = (current_position st + 1) mod chamber_count st \<and>
         bullets st' = bullets st \<and> chamber_count st' = chamber_count st"
    by (simp add: fire_def Let_def)
next
  fix L
  show "\<exists>s1 s2. fire L scenario_gun = Inr (True, s1) \<and> current_position s1 = 1 \<and>
      fire L s1 = Inr (False, s2) \<and> current_position s2 = 2"
    by (simp add: fire_def Let_def scenario_gun_def new_game_state_def)
qed

theorem fire_hit_iff_bullet_and_advance_witness:
  "chamber_count scenario_gun \<noteq> 0 \<and>
   (\<exists>st'. fire ZH scenario_gun = Inr (True, st') \<and> current_position st' = 1 \<and>
      bullets st' = [0, 2] \<and> chamber_count st' = 6)"
proof -
  have h: "chamber_count scenario_gun \<noteq> 0"
    by (simp add: scenario_gun_def new_game_state_def)
  from fire_hit_iff_bullet_and_advance h
  have "\<exists>st'. fire ZH scenario_gun =
          Inr (current_position scenario_gun \<in> set (bullets scenario_gun), st') \<and>
        current_position st' = (current_position scenario_gun + 1) mod chamber_count scenario_gun \<and>
        bullets st' = bullets scenario_gun \<and> chamber_count st' = chamber_count scenario_gun"
    by blast
  then show ?thesis
    using h by (simp add: scenario_gun_def new_game_state_def)
qed

text \<open>
  Claim C10. For a position in range, in both variants, \<open>check_chamber\<close> returns whether the
  position is in \<open>bullets\<close>, and the game state after the call is the state before it with
  one entry appended to the spectator log \<open>logs\<close>: the bullets, the trigger position, the
  chamber count, the contract and reverse state and the participant log are as before.
  The call has no access to the players, so the inventories of the controller that made
  the call are as before too.
\<close>

theorem check_chamber_frame:
  "0 \<le> position \<Longrightarrow> position < chamber_count (game_state c) \<Longrightarrow>
   \<exists>entry gs'. check_chamber L position who (game_state c) =
       Inr (position \<in> set (bullets (game_state c)), gs') \<and>
     gs' = (game_state c)\<lparr>logs := logs (game_state c) @ [entry]\<rparr> \<and>
     bullets gs' = bullets (game_state c) \<and>
     current_position gs' = current_position (game_state c) \<and>
     chamber_count gs' = chamber_count (game_state c) \<and>
     contract_active gs' = contract_active (game_state c) \<and>
     contract_turns_left gs' = contract_turns_left (game_state c) \<and>
     reverse_active gs' = reverse_active (game_state c) \<and>
     player_logs gs' = player_logs (game_state c) \<and>
     map items (players (c\<lparr>game_state := gs'\<rparr>)) = map items (players c)"
  by (auto simp add: check_chamber_def Let_def)

theorem check_chamber_frame_witness:
  "(0::int) \<le> 2 \<and> 2 < chamber_count (game_state (duel EN scenario_gun)) \<and>
   (\<exists>gs'. check_chamber EN 2 ''Bill'' (game_state (duel EN scenario_gun)) = Inr (True, gs') \<and>
      logs gs' = [''Bill checks position 3: has bullet''] \<and>
      bullets gs' = [0, 2] \<and> current_position gs' = 0 \<and> player_logs gs' = [] \<and>
      map items (players ((duel EN scenario_gun)\<lparr>game_state := gs'\<rparr>)) =
        [[''Bullet'', ''Check'', ''Reverse''], [''Reverse'', ''Contract'']])"
proof -
  have h1: "(0::int) \<le> 2"
    by simp
  have h2: "2 < chamber_count (game_state (duel EN scenario_gun))"
    by (simp add: duel_def scenario_gun_def new_game_state_def)
  from check_chamber_frame [OF h1 h2, of EN "''Bill''"]
  show ?thesis
    using h2
    by (auto simp add: duel_def scenario_gun_def new_game_state_def bill_def lee_def tr_def
          check_chamber_def str_int_def str_nat.simps digit_char_def)
qed

section \<open>The contract\<close>

text \<open>While the contract is active it has between 1 and 3 turns left: \<open>activate_contract\<close>
  establishes this and \<open>fire\<close> keeps it.\<close>

lemma contract_turns_invariant:
  "(contract_active (snd (activate_contract L st)) \<longrightarrow>
      1 \<le> contract_turns_left (snd (activate_contract L st)) \<and>
      contract_turns_left (snd (activate_contract L st)) \<le> 3) \<and>
   ((contract_active st \<longrightarrow> 1 \<le> contract_turns_left st \<and> contract_turns_left st \<le> 3) \<and>
    fire L st = Inr (hit, st') \<longrightarrow>
      (contract_active st' \<longrightarrow> 1 \<le> contract_turns_left st' \<and> contract_turns_left st' \<le> 3))"
  by (auto simp add: activate_contract_def fire_def Let_def split: if_splits)



section \<open>The initial gun\<close>

text \<open>The shuffle permutes its argument, so a prefix of the shuffled chamber indices is
  a list of distinct chambers. In the Chinese variant \<open>initialize_gun\<close> succeeds for every
  chamber count from 2 on, whatever the draws, with between 1 and \<open>chamber_count div 2\<close>
  distinct bullets inside the cylinder and the trigger inside the cylinder.\<close>

lemma swap_length: "length (swap i j xs) = length xs"
  by (simp add: swap_def)

lemma mset_swap_list: "i < length xs \<Longrightarrow> j < length xs \<Longrightarrow> mset (swap i j xs) = mset xs"
  by (simp add: swap_def mset_swap)

lemma mset_shuffle_from: "i < length xs \<Longrightarrow> mset (shuffle_from rs i xs) = mset xs"
proof (induction i arbitrary: xs)
  case 0
  then show ?case by simp
next
  case (Suc i)
  have "rs (Suc i) mod (Suc i + 1) < Suc i + 1"
    by simp
  then have j: "rs (Suc i) mod (Suc i + 1) < length xs"
    using Suc.prems by linarith
  have "i < length (swap (Suc i) (rs (Suc i) mod (Suc i + 1)) xs)"
    using Suc.prems by (simp add: swap_length)
  then have "mset (shuffle_from rs i (swap (Suc i) (rs (Suc i) mod (Suc i + 1)) xs)) =
        mset (swap (Suc i) (rs (Suc i) mod (Suc i + 1)) xs)"
    by (rule Suc.IH)
  also have "\<dots> = mset xs"
    using Suc.prems j by (rule mset_swap_list)
  finally show ?case by simp
qed

lemma mset_shuffle: "mset (shuffle rs xs) = mset xs"
  by (cases xs) (simp_all add: shuffle_def mset_shuffle_from)

lemma set_range_list: "set (range_list n) = {i. 0 \<le> i \<and> i < n}"
proof (rule set_eqI)
  fix x :: int
  show "x \<in> set (range_list n) \<longleftrightarrow> x \<in> {i. 0 \<le> i \<and> i < n}"
  proof
    assume "x \<in> set (range_list n)"
    then show "x \<in> {i. 0 \<le> i \<and> i < n}"
      by (auto simp add: range_list_def)
  next
    assume "x \<in> {i. 0 \<le> i \<and> i < n}"
    then have "nat x < nat n" and "int (nat x) = x"
      by simp_all
    then have "x \<in> int ` {0..<nat n}"
      by (metis atLeastLessThan_iff image_eqI zero_le)
    then show "x \<in> set (range_list n)"
      by (simp add: range_list_def)
  qed
qed

lemma shuffle_range:
  "distinct (shuffle rs (range_list n)) \<and> set (shuffle rs (range_list n)) = {i. 0 \<le> i \<and> i < n} \<and>
   length (shuffle rs (range_list n)) = nat n"
proof -
  have m: "mset (shuffle rs (range_list n)) = mset (range_list n)"
    by (rule mset_shuffle)
  have d: "distinct (range_list n)"
    by (simp add: range_list_def distinct_map)
  have l: "length (range_list n) = nat n"
    by (simp add: range_list_def)
  have "distinct (shuffle rs (range_list n))"
    using mset_eq_imp_distinct_iff [OF m] d by simp
  moreover have "set (shuffle rs (range_list n)) = {i. 0 \<le> i \<and> i < n}"
    using mset_eq_setD [OF m] set_range_list by simp
  moreover have "length (shuffle rs (range_list n)) = nat n"
    using mset_eq_length [OF m] l by simp
  ultimately show ?thesis by simp
qed

lemma initialize_gun_zh:
  "2 \<le> chamber_count st \<Longrightarrow>
   \<exists>st'. initialize_gun ZH r_count r_shuffle r_pos st = Inr st' \<and>
     1 \<le> length (bullets st') \<and> int (length (bullets st')) \<le> chamber_count st div 2 \<and>
     distinct (bullets st') \<and> (\<forall>b \<in> set (bullets st'). 0 \<le> b \<and> b < chamber_count st) \<and>
     0 \<le> current_position st' \<and> current_position st' < chamber_count st \<and>
     chamber_count st' = chamber_count st"
proof -
  assume n: "2 \<le> chamber_count st"
  define k where "k = 1 + int r_count mod (chamber_count st div 2)"
  define pos where "pos = int r_pos mod chamber_count st"
  define sh where "sh = shuffle r_shuffle (range_list (chamber_count st))"
  have h: "1 \<le> chamber_count st div 2" using n by simp
  have "0 \<le> int r_count mod (chamber_count st div 2)"
    and "int r_count mod (chamber_count st div 2) < chamber_count st div 2"
    using h by simp_all
  then have k: "1 \<le> k \<and> k \<le> chamber_count st div 2"
    by (simp add: k_def)
  have kn: "k \<le> chamber_count st" using k n by linarith
  have p: "0 \<le> pos \<and> pos < chamber_count st"
    using n by (simp add: pos_def)
  have sh: "distinct sh \<and> set sh = {i. 0 \<le> i \<and> i < chamber_count st} \<and> length sh = nat (chamber_count st)"
    unfolding sh_def by (rule shuffle_range)
  have r1: "randint 1 (chamber_count st div 2) r_count = Inr k"
    using h by (simp add: randint_def k_def)
  have r2: "randint 0 (chamber_count st - 1) r_pos = Inr pos"
    using n by (simp add: randint_def pos_def)
  have len: "length (sort (take (nat k) sh)) = nat k"
    using sh kn k by simp
  have k1: "1 \<le> nat k" and k2: "int (nat k) \<le> chamber_count st div 2"
    using k by linarith+
  have dist: "distinct (sort (take (nat k) sh))"
    using sh by (simp add: distinct_take)
  have sub: "\<forall>b \<in> set (sort (take (nat k) sh)). 0 \<le> b \<and> b < chamber_count st"
    using sh by (auto dest: in_set_takeD)
  show ?thesis
    using len k1 k2 dist sub p
    by (simp add: initialize_gun_def bullet_divisor_def Let_def sh_def [symmetric] r1 r2)
qed

section \<open>Where the engine departs from its own rules\<close>

text \<open>
  Claim C1. A hit while the contract is active at the moment of firing should kill both
  players, also when one turn is left. \<open>fire\<close> lowers the counter and clears
  \<open>contract_active\<close> before it returns, and \<open>run_game\<close> tests \<open>contract_active\<close> only after the
  turn: with one turn left the test fails, \<open>check_contract_effect\<close> is not called, only the
  target dies and the shooter is declared the winner. With two turns left the same shot
  kills both. The rules text and \<open>activate_contract\<close> promise three turns of contract; the
  third fire after the activation is the one that is not covered.
\<close>

theorem contract_last_turn_hit_spares_shooter:
  "(\<exists>c'. run_game ZH (\<lambda>n. quiet) (duel ZH contract_last_turn) = Inr (0, c') \<and>
      map alive (players c') = [True, False] \<and>
      console c' = [TurnHeader 1, FireHeader ''Bill'' (zh T_Opponent), OpponentHit ''Lee'',
                    GameOver, Winner ''Bill'']) \<and>
   (\<exists>c'. run_game ZH (\<lambda>n. quiet)
            (duel ZH (contract_last_turn\<lparr>contract_turns_left := 2\<rparr>)) = Inr (0, c') \<and>
      map alive (players c') = [False, False] \<and>
      console c' = [TurnHeader 1, FireHeader ''Bill'' (zh T_Opponent), OpponentHit ''Lee'',
                    ContractCheck, ContractTriggered, GameOver, AllDeadDraw])"
  by (simp add: game_loop.simps [of _ _ 0] turn_defs game_defs tr_def)

text \<open>
  Claim C2. The participant log should record only that an item was used. In both
  variants the entry that \<open>handle_item_usage\<close> appends to \<open>player_logs\<close> is the player's name,
  the word for "used" and the name of the item: after a successful Bullet it reads
  \<open>Bill used Bullet\<close> and after a successful Check \<open>Bill used Check\<close>, so the entry tells
  the two apart. The rules text of the same file says that the opponent sees that an item
  was used and not which one.
\<close>

theorem participant_log_names_the_item:
  "(\<exists>m p gs'. handle_item_usage L 0 (bill L) (Some (tr L T_ItemBullet)) None 0 quiet_gun =
       Inr (m, p, gs') \<and> items p = [tr L T_ItemCheck, tr L T_ItemReverse] \<and>
       player_logs gs' = [''Bill'' @ tr L T_Used @ tr L T_ItemBullet]) \<and>
   (\<exists>m p gs'. handle_item_usage L 0 (bill L) (Some (tr L T_ItemCheck)) (Some ''3'') 0 quiet_gun =
       Inr (m, p, gs') \<and> items p = [tr L T_ItemBullet, tr L T_ItemReverse] \<and>
       player_logs gs' = [''Bill'' @ tr L T_Used @ tr L T_ItemCheck]) \<and>
   ''Bill'' @ tr EN T_Used @ tr EN T_ItemBullet = ''Bill used Bullet'' \<and>
   ''Bill'' @ tr EN T_Used @ tr EN T_ItemCheck = ''Bill used Check''"
  by (cases L)
    (simp_all add: handle_item_usage_def add_bullet_def check_chamber_def remove_item_def
       py_int_def strip_def is_space_def unsigned_val_def digit_val_def range_list_def choice_def
       game_defs tr_def Let_def)

text \<open>
  Claim C3. \<open>initialize_gun\<close> should succeed for every chamber count from 2 on, with between
  1 and \<open>chamber_count div 2\<close> bullets, in both variants. The English variant divides by 3:
  with two chambers the range of the bullet count is empty and \<open>random.randint\<close> raises
  \<open>ValueError\<close>, whatever the draws. The comment above the line and the rules text of the
  English variant both say \<open>floor(x/2)\<close>. For the Chinese variant the bounds hold, see
  \<open>initialize_gun_zh\<close> above.
\<close>

theorem english_initialize_gun_two_chambers:
  "initialize_gun EN r_count r_shuffle r_pos (new_game_state 2) = Inl ValueError"
  by (simp add: initialize_gun_def randint_def bullet_divisor_def new_game_state_def)

text \<open>
  Claim C4. An accepted negotiation should end the match as a negotiated draw without a
  fire. In both variants the turn does end at once, with no fire (the trigger has not
  moved, both players are alive) and with the header of the negotiated draw; but the
  classification at the end of \<open>run_game\<close> knows only "nobody alive", "everybody alive" and
  "winner", and prints for "everybody alive" that the game has reached the maximal number
  of turns, here after no completed turn.
\<close>

theorem negotiated_draw_reported_as_max_turns:
  "\<exists>c'. run_game L (\<lambda>n. proposal L) (duel L quiet_gun) = Inr (0, c') \<and>
     console c' = [TurnHeader 1, NegotiationSuccess, GameOver, MaxTurnsDraw] \<and>
     current_position (game_state c') = 0 \<and> map alive (players c') = [True, True]"
  by (cases L)
    (simp_all add: game_loop.simps [of _ _ 0] turn_defs game_defs tr_def lower_def
       lower_char_def)

section \<open>Failed item activations\<close>









lemma turn_communication_frame:
  "turn_communication L idx d resp c = Inr (b, c') \<Longrightarrow>
   players c' = players c \<and> current_player_idx c' = current_player_idx c \<and>
   console c' = console c @ (if b then [] else [NegotiationSuccess]) \<and>
   game_state c' = (game_state c)\<lparr>logs := logs (game_state c'),
                                   player_logs := player_logs (game_state c')\<rparr>"
  by (auto simp add: turn_communication_def Let_def add_player_communication_def
        split: if_splits option.splits)






section \<open>The reverse rule\<close>









section \<open>The turn loop\<close>

lemma handle_keeps_alive:
  "handle_item_usage L idx p item param r gs = Inr (m, p', gs') \<Longrightarrow> alive p' = alive p"
  by (auto simp add: handle_item_usage_def remove_item_def Let_def
        split: option.splits if_splits sum.splits prod.splits)

lemma map_alive_update:
  "alive q = alive (ps ! i) \<Longrightarrow> map alive (ps[i := q]) = map alive ps"
proof (rule nth_equalityI)
  show "length (map alive (ps[i := q])) = length (map alive ps)"
    by simp
next
  fix k
  assume "alive q = alive (ps ! i)" and "k < length (map alive (ps[i := q]))"
  then show "map alive (ps[i := q]) ! k = map alive ps ! k"
    by (cases "i = k") simp_all
qed

lemma turn_item_usage_frame:
  "turn_item_usage L idx d r c = Inr c1 \<Longrightarrow>
   console c1 = console c \<and> map alive (players c1) = map alive (players c) \<and>
   length (players c1) = length (players c) \<and> current_player_idx c1 = current_player_idx c"
  by (auto simp add: turn_item_usage_def map_alive_update handle_keeps_alive
        split: if_splits sum.splits)

lemma turn_fire_events:
  "turn_fire L idx d c = Inr (b, c') \<Longrightarrow>
   \<exists>evs. console c' = console c @ evs \<and> filter is_turn_header evs = [] \<and>
     (b \<longleftrightarrow> filter ends_match evs = []) \<and> length (players c') = length (players c) \<and>
     (b \<longrightarrow> players c' = players c) \<and> current_player_idx c' = current_player_idx c"
  by (auto simp add: turn_fire_def Let_def split: if_splits sum.splits)

lemma process_player_turn_events:
  assumes "process_player_turn L idx inp c = Inr (b, c')"
  shows "\<exists>evs. console c' = console c @ evs \<and> filter is_turn_header evs = [] \<and>
     (b \<longleftrightarrow> filter ends_match evs = []) \<and> length (players c') = length (players c) \<and>
     (b \<longrightarrow> map alive (players c') = map alive (players c)) \<and>
     current_player_idx c' = current_player_idx c"
proof (cases "llm_type (players c ! idx) = None")
  case True
  with assms have "b" and "c' = c"
    by (auto simp add: process_player_turn_def split: if_splits)
  then show ?thesis by simp
next
  case False
  with assms obtain d c1 b2 c2 where
    d: "ai_parsed inp = Some d"
    and s1: "turn_item_usage L idx d (draw inp) c = Inr c1"
    and s2: "turn_communication L idx d (opponent_response inp) c1 = Inr (b2, c2)"
    and s3: "if b2 then turn_fire L idx d c2 = Inr (b, c') else (b = False \<and> c' = c2)"
    by (auto simp add: process_player_turn_def split: if_splits option.splits sum.splits)
  note f1 = turn_item_usage_frame [OF s1]
  note f2 = turn_communication_frame [OF s2]
  show ?thesis
  proof (cases b2)
    case True
    with s3 have "turn_fire L idx d c2 = Inr (b, c')"
      by simp
    from turn_fire_events [OF this] obtain evs where
      "console c' = console c2 @ evs" "filter is_turn_header evs = []"
      "b \<longleftrightarrow> filter ends_match evs = []" "length (players c') = length (players c2)"
      "b \<longrightarrow> players c' = players c2" "current_player_idx c' = current_player_idx c2"
      by blast
    with f1 f2 True show ?thesis
      by auto
  next
    case False
    with s3 have "b = False" "c' = c2"
      by simp_all
    with f1 f2 False show ?thesis
      by auto
  qed
qed


lemma check_contract_effect_events:
  "\<exists>evs. console (snd (check_contract_effect c)) = console c @ evs \<and>
     filter is_turn_header evs = [] \<and> filter ends_match evs = [] \<and>
     length (players (snd (check_contract_effect c))) = length (players c)"
  by (simp add: check_contract_effect_def)

lemma game_loop_events:
  "game_loop L inp n c = Inr (b, m, c') \<Longrightarrow>
   \<exists>evs. console c' = console c @ evs \<and>
     length (filter is_turn_header evs) = (if b then max_turns - n else m + 1 - n) \<and>
     (b \<longleftrightarrow> filter ends_match evs = []) \<and>
     (b \<longrightarrow> m = max n max_turns \<and> map alive (players c') = map alive (players c)) \<and>
     (\<not> b \<longrightarrow> n \<le> m \<and> m < max_turns) \<and>
     length (players c') = length (players c)"
proof (induction L inp n c arbitrary: b m c' rule: game_loop.induct)
  case (1 L inp n c)
  let ?c0 = "c\<lparr>console := console c @ [TurnHeader (n + 1)]\<rparr>"
  show ?case
  proof (cases "n < max_turns")
    case False
    with "1.prems" have "b" "m = n" "c' = c"
      by (simp_all add: game_loop.simps [of L inp n c])
    with False show ?thesis
      by simp
  next
    case True
    with "1.prems" obtain active c1 where
      t: "process_player_turn L (current_player_idx c) (inp n) ?c0 = Inr (active, c1)"
      by (auto simp add: game_loop.simps [of L inp n c] split: sum.splits)
    from process_player_turn_events [OF t] obtain evs1 where
      e1: "console c1 = console c @ [TurnHeader (n + 1)] @ evs1"
        "filter is_turn_header evs1 = []"
        "active \<longleftrightarrow> filter ends_match evs1 = []"
        "length (players c1) = length (players c)"
        "active \<longrightarrow> map alive (players c1) = map alive (players c)"
      by auto
    show ?thesis
    proof (cases active)
      case False
      let ?c2 = "if contract_active (game_state c1) then
                   snd (check_contract_effect (c1\<lparr>console := console c1 @ [ContractCheck]\<rparr>))
                 else c1"
      from True t False "1.prems" have r: "b = False" "m = n" "c' = ?c2"
        by (simp_all add: game_loop.simps [of L inp n c])
      from check_contract_effect_events [of "c1\<lparr>console := console c1 @ [ContractCheck]\<rparr>"]
      obtain evs2 where
        "console ?c2 = console c1 @ evs2" "filter is_turn_header evs2 = []"
        "length (players ?c2) = length (players c1)"
        by (cases "contract_active (game_state c1)") auto
      with e1 False r True show ?thesis
        by auto
    next
      case active: True
      let ?c2 = "c1\<lparr>current_player_idx := (current_player_idx c1 + 1) mod length (players c1)\<rparr>"
      from True t active "1.prems" have r: "game_loop L inp (n + 1) ?c2 = Inr (b, m, c')"
        by (simp add: game_loop.simps [of L inp n c])
      have "\<exists>evs. console c' = console ?c2 @ evs \<and>
          length (filter is_turn_header evs) = (if b then max_turns - (n + 1) else m + 1 - (n + 1)) \<and>
          (b \<longleftrightarrow> filter ends_match evs = []) \<and>
          (b \<longrightarrow> m = max (n + 1) max_turns \<and> map alive (players c') = map alive (players ?c2)) \<and>
          (\<not> b \<longrightarrow> n + 1 \<le> m \<and> m < max_turns) \<and>
          length (players c') = length (players ?c2)"
        using "1.IH" [OF True t refl] active r by simp
      then obtain evs2 where
        e2: "console c' = console c1 @ evs2"
          "length (filter is_turn_header evs2) = (if b then max_turns - (n + 1) else m + 1 - (n + 1))"
          "b \<longleftrightarrow> filter ends_match evs2 = []"
          "b \<longrightarrow> m = max (n + 1) max_turns \<and> map alive (players c') = map alive (players c1)"
          "\<not> b \<longrightarrow> n + 1 \<le> m \<and> m < max_turns"
          "length (players c') = length (players c1)"
        by auto
      have "console c' = console c @ ([TurnHeader (n + 1)] @ evs1 @ evs2)"
        using e1 e2 by simp
      moreover have "length (filter is_turn_header ([TurnHeader (n + 1)] @ evs1 @ evs2)) =
          (if b then max_turns - n else m + 1 - n)"
        using e1 e2 True by auto
      moreover have "b \<longleftrightarrow> filter ends_match ([TurnHeader (n + 1)] @ evs1 @ evs2) = []"
        using e1 e2 active by simp
      moreover have "b \<longrightarrow> m = max n max_turns \<and> map alive (players c') = map alive (players c)"
        using e1 e2 active True by auto
      moreover have "\<not> b \<longrightarrow> n \<le> m \<and> m < max_turns"
        using e2 by auto
      moreover have "length (players c') = length (players c)"
        using e1 e2 by simp
      ultimately show ?thesis
        by blast
    qed
  qed
qed


lemma all_alive_transfer:
  assumes "map alive ps' = map alive ps" and "\<forall>p \<in> set ps. alive p"
  shows "filter alive ps' = ps' \<and> length ps' = length ps"
proof -
  have len: "length ps' = length ps"
    using assms(1) by (rule map_eq_imp_length_eq)
  have "alive p" if "p \<in> set ps'" for p
  proof -
    from that have "alive p \<in> set (map alive ps')"
      by simp
    with assms(1) have "alive p \<in> set (map alive ps)"
      by simp
    then obtain q where "q \<in> set ps" "alive p = alive q"
      by auto
    with assms(2) show ?thesis
      by simp
  qed
  then have "filter alive ps' = ps'"
    by (simp add: filter_id_conv)
  with len show ?thesis
    by simp
qed

text \<open>
  Claim C9. \<open>game_loop\<close> is a total function: its recursion is accepted with the measure
  \<open>max_turns - turn_count\<close>, whatever the replies of the agents are, so the loop of
  \<open>run_game\<close> always ends. When it ends without an exception, at most 30 turns have been
  started (each prints one turn header) and \<open>turn_count\<close> is at most 30. The loop is left
  with \<open>game_active\<close> true exactly when no turn has printed a hit or an accepted
  negotiation; then 30 turns have been played, \<open>turn_count\<close> is 30, every player is alive
  or dead as at the start, and for a non-empty roster of living players \<open>run_game\<close> prints
  the max-turns draw as its classification.
\<close>

theorem run_game_max_turns:
  fixes c :: controller
  assumes run: "game_loop L inp 0 c = Inr (game_active, turn_count, c')"
  shows "turn_count \<le> 30 \<and>
     turn_headers (console c') \<le> turn_headers (console c) + 30 \<and>
     (game_active \<longleftrightarrow> filter ends_match (drop (length (console c)) (console c')) = []) \<and>
     (game_active \<longrightarrow>
        turn_count = 30 \<and> turn_headers (console c') = turn_headers (console c) + 30 \<and>
        map alive (players c') = map alive (players c) \<and>
        (players c \<noteq> [] \<and> (\<forall>p \<in> set (players c). alive p) \<longrightarrow>
           run_game L inp c =
             Inr (30, c'\<lparr>console := console c' @ [GameOver, MaxTurnsDraw]\<rparr>)))"
proof -
  from game_loop_events [OF run] obtain evs where
    e: "console c' = console c @ evs"
      "length (filter is_turn_header evs) = (if game_active then max_turns - 0 else turn_count + 1 - 0)"
      "game_active \<longleftrightarrow> filter ends_match evs = []"
      "game_active \<longrightarrow> turn_count = max 0 max_turns \<and>
         map alive (players c') = map alive (players c)"
      "\<not> game_active \<longrightarrow> 0 \<le> turn_count \<and> turn_count < max_turns"
    by blast
  have a: "turn_count \<le> 30"
    using e(4,5) by (cases game_active) (simp_all add: max_turns_def)
  have b: "turn_headers (console c') \<le> turn_headers (console c) + 30"
    using e(1,2,5) by (cases game_active) (simp_all add: turn_headers_def max_turns_def)
  have d: "game_active \<longleftrightarrow> filter ends_match (drop (length (console c)) (console c')) = []"
    using e(1,3) by simp
  have f: "run_game L inp c = Inr (30, c'\<lparr>console := console c' @ [GameOver, MaxTurnsDraw]\<rparr>)"
    if "game_active" and "players c \<noteq> []" and "\<forall>p \<in> set (players c). alive p"
  proof -
    from that(1) e(4) have m: "map alive (players c') = map alive (players c)"
      and t: "turn_count = 30"
      by (simp_all add: max_turns_def)
    from all_alive_transfer [OF m that(3)] that(2)
    have "classification c' = [MaxTurnsDraw]"
      by (auto simp add: classification_def Let_def)
    with run t that(1) show ?thesis
      by (simp add: run_game_def)
  qed
  have g: "game_active \<longrightarrow>
        turn_count = 30 \<and> turn_headers (console c') = turn_headers (console c) + 30 \<and>
        map alive (players c') = map alive (players c)"
    using e(1,2,4) by (simp add: turn_headers_def max_turns_def)
  from a b d f g show ?thesis
    by blast
qed

lemma quiet_turn_miss:
  fixes c :: controller
  assumes "idx < length (players c)" and "llm_type (players c ! idx) \<noteq> None"
    and "chamber_count (game_state c) \<noteq> 0"
    and "current_position (game_state c) \<notin> set (bullets (game_state c))"
  shows "\<exists>c'. process_player_turn L idx quiet c = Inr (True, c') \<and> players c' = players c \<and>
     bullets (game_state c') = bullets (game_state c) \<and>
     chamber_count (game_state c') = chamber_count (game_state c) \<and>
     current_position (game_state c') =
       (current_position (game_state c) + 1) mod chamber_count (game_state c)"
  using assms
  by (auto simp add: process_player_turn_def quiet_def no_reply_def turn_item_usage_def
        turn_communication_def turn_fire_def fire_def add_player_communication_def Let_def)

lemma quiet_long_run:
  fixes c :: controller
  assumes "k = 30 - n" and "n \<le> 30" and "players c = [bill L, lee L]"
    and "current_player_idx c < 2" and "chamber_count (game_state c) = 100"
    and "bullets (game_state c) = [99]" and "current_position (game_state c) = int n"
  shows "\<exists>c'. game_loop L (\<lambda>i. quiet) n c = Inr (True, 30, c')"
  using assms
proof (induction k arbitrary: n c)
  case 0
  then have "n = 30"
    by simp
  then show ?case
    by (simp add: game_loop.simps [of L _ 30 c] max_turns_def)
next
  case (Suc k)
  let ?c0 = "c\<lparr>console := console c @ [TurnHeader (n + 1)]\<rparr>"
  from Suc.prems have n: "n < 30"
    by simp
  have "\<exists>c1. process_player_turn L (current_player_idx c) quiet ?c0 = Inr (True, c1) \<and>
      players c1 = players ?c0 \<and>
      bullets (game_state c1) = bullets (game_state ?c0) \<and>
      chamber_count (game_state c1) = chamber_count (game_state ?c0) \<and>
      current_position (game_state c1) =
        (current_position (game_state ?c0) + 1) mod chamber_count (game_state ?c0)"
  proof (rule quiet_turn_miss)
    show "current_player_idx c < length (players ?c0)"
      using Suc.prems by simp
    show "llm_type (players ?c0 ! current_player_idx c) \<noteq> None"
      using Suc.prems by (cases "current_player_idx c") (simp_all add: bill_def lee_def)
    show "chamber_count (game_state ?c0) \<noteq> 0"
      using Suc.prems by simp
    show "current_position (game_state ?c0) \<notin> set (bullets (game_state ?c0))"
      using Suc.prems n by simp
  qed
  then obtain c1 where
    c1: "process_player_turn L (current_player_idx c) quiet ?c0 = Inr (True, c1)"
      "players c1 = players c" "bullets (game_state c1) = [99]"
      "chamber_count (game_state c1) = 100"
      "current_position (game_state c1) = (int n + 1) mod 100"
    using Suc.prems by auto
  let ?c2 = "c1\<lparr>current_player_idx := (current_player_idx c1 + 1) mod length (players c1)\<rparr>"
  have "\<exists>c'. game_loop L (\<lambda>i. quiet) (n + 1) ?c2 = Inr (True, 30, c')"
  proof (rule Suc.IH)
    show "k = 30 - (n + 1)"
      using Suc.prems by simp
    show "n + 1 \<le> 30"
      using n by simp
    show "players ?c2 = [bill L, lee L]"
      using c1 Suc.prems by simp
    show "current_player_idx ?c2 < 2"
    proof -
      have len: "length (players c1) = 2"
        using c1 Suc.prems by simp
      have "current_player_idx ?c2 = (current_player_idx c1 + 1) mod length (players c1)"
        by simp
      also have "\<dots> = (current_player_idx c1 + 1) mod 2"
        by (simp only: len)
      also have "\<dots> < 2"
        by (rule mod_less_divisor) simp
      finally show ?thesis .
    qed
    show "chamber_count (game_state ?c2) = 100"
      using c1 by simp
    show "bullets (game_state ?c2) = [99]"
      using c1 by simp
    show "current_position (game_state ?c2) = int (n + 1)"
      using c1 n by simp
  qed
  with c1 n show ?case
    by (simp add: game_loop.simps [of L _ n c] max_turns_def)
qed

theorem run_game_max_turns_witness:
  "\<exists>c'. game_loop ZH (\<lambda>i. quiet) 0 (duel ZH long_gun) = Inr (True, 30, c') \<and>
     turn_headers (console c') = 30 \<and>
     filter ends_match (console c') = [] \<and>
     map alive (players c') = [True, True] \<and>
     run_game ZH (\<lambda>i. quiet) (duel ZH long_gun) =
       Inr (30, c'\<lparr>console := console c' @ [GameOver, MaxTurnsDraw]\<rparr>)"
proof -
  have "\<exists>c'. game_loop ZH (\<lambda>i. quiet) 0 (duel ZH long_gun) = Inr (True, 30, c')"
    by (rule quiet_long_run [of 30]) (simp_all add: duel_def long_gun_def new_game_state_def)
  then obtain c' where run: "game_loop ZH (\<lambda>i. quiet) 0 (duel ZH long_gun) = Inr (True, 30, c')"
    by blast
  have start: "players (duel ZH long_gun) \<noteq> [] \<and> (\<forall>p \<in> set (players (duel ZH long_gun)). alive p)"
    "console (duel ZH long_gun) = []" "map alive (players (duel ZH long_gun)) = [True, True]"
    by (simp_all add: duel_def bill_def lee_def)
  from run_game_max_turns [OF run] start run show ?thesis
    by (simp add: turn_headers_def)
qed

end
